theory Spec2Isabelle
  imports Complex_Main
begin

section \<open>Numbers, vectors and errors\<close>

text \<open>
  A Python exception is an \<open>Inl\<close> result. The values a Curve handles are finite
  floats, written as the real numbers they denote: \<open>evaluate\<close> only clips, compares and
  copies them, and none of that rounds. Vectors over the reals serve the voxel sizes and
  offsets of a Volume, and the geometry that a claim on doubles is measured against.
\<close>

datatype py_error = IndexError | ValueError | OverflowError | LibraryError

type_synonym vec3 = "real \<times> real \<times> real"



fun smul :: "real \<Rightarrow> vec3 \<Rightarrow> vec3" where
  "smul t (a1, a2, a3) = (t * a1, t * a2, t * a3)"


text \<open>\<^verbatim>\<open>np.clip(x, lo, hi)\<close> is \<^verbatim>\<open>minimum(maximum(x, lo), hi)\<close>.\<close>

definition np_clip :: "real \<Rightarrow> real \<Rightarrow> real \<Rightarrow> real" where
  "np_clip x lo hi = min (max x lo) hi"

text \<open>\<^verbatim>\<open>np.linspace(a, b, num=n)\<close>, end point included.\<close>

definition linspace :: "real \<Rightarrow> real \<Rightarrow> nat \<Rightarrow> real list" where
  "linspace a b n = map (\<lambda>i. a + real i * ((b - a) / real (n - 1))) [0..<n]"

text \<open>\<^verbatim>\<open>arr[mask] = v\<close> with a boolean mask as long as the array.\<close>

definition mask_assign :: "'a list \<Rightarrow> bool list \<Rightarrow> 'a \<Rightarrow> 'a list" where
  "mask_assign xs m v = map (\<lambda>(x, b). if b then v else x) (zip xs m)"

section \<open>Curve (core/geometry/volume.py)\<close>

datatype curve_type = Cubic | Linear

record curve =
  inputs :: "real list"
  outputs :: "real list"
  bounds :: "real \<times> real"
  ctype :: curve_type
  curve_f :: "(real \<Rightarrow> real) option"
  transfer_function :: "real list"

text \<open>
  \<^verbatim>\<open>Curve.evaluate\<close>. The fitted model \<open>curve_f\<close> is scipy's interpolant, applied
  to each element. Reading \<^verbatim>\<open>self.outputs[0]\<close> or \<^verbatim>\<open>self.inputs[0]\<close> of an empty
  array raises IndexError.
\<close>

definition evaluate :: "curve \<Rightarrow> real list \<Rightarrow> py_error + real list" where
  "evaluate self xs =
     (case (case curve_f self of
              None \<Rightarrow>
                (case outputs self of
                   [] \<Rightarrow> Inl IndexError
                 | o1 # _ \<Rightarrow> Inr (map (\<lambda>v. np_clip v 0 1) (replicate (length xs) o1)))
            | Some g \<Rightarrow> Inr (map (\<lambda>v. np_clip v 0 1) (map g xs))) of
        Inl e \<Rightarrow> Inl e
      | Inr outs \<Rightarrow>
          if outputs self = [] \<or> inputs self = [] then Inl IndexError
          else
            let outs1 = mask_assign outs (map (\<lambda>x. x < hd (inputs self)) xs) (hd (outputs self));
                outs2 = mask_assign outs1 (map (\<lambda>x. x > last (inputs self)) xs)
                          (last (outputs self))
            in Inr outs2)"

text \<open>
  The grey ramp \<^verbatim>\<open>np.tile(np.linspace(0.0, 1.0, num=256)[:, None], (1, 4))\<close> and the
  write of the alpha column \<^verbatim>\<open>transfer_function[:, 3] = value\<close>.
\<close>

definition ramp_rows :: "real list list" where
  "ramp_rows = map (\<lambda>v. replicate 4 v) (linspace 0 1 256)"

definition set_alpha :: "real list list \<Rightarrow> real list \<Rightarrow> real list list" where
  "set_alpha rows vals = map (\<lambda>(r, v). r[3 := v]) (zip rows vals)"

text \<open>
  \<^verbatim>\<open>Curve.__init__\<close>. The parameter \<open>fit\<close> stands for the two scipy constructors
  (\<^verbatim>\<open>CubicSpline\<close> for \<open>Cubic\<close>, \<^verbatim>\<open>interp1d\<close> otherwise); \<open>None\<close> is the library
  rejecting its arguments. The source has no check of its own on the two lengths.
\<close>

definition Curve_init ::
  "(curve_type \<Rightarrow> real list \<Rightarrow> real list \<Rightarrow> (real \<Rightarrow> real) option) \<Rightarrow>
   real list \<Rightarrow> real list \<Rightarrow> real \<times> real \<Rightarrow> curve_type \<Rightarrow> py_error + curve" where
  "Curve_init fit ins outs bnds ct =
     (case (if length ins > 1
            then (case fit ct ins outs of None \<Rightarrow> Inl LibraryError | Some g \<Rightarrow> Inr (Some g))
            else Inr None) of
        Inl e \<Rightarrow> Inl e
      | Inr fo \<Rightarrow>
          let self = \<lparr>inputs = ins, outputs = outs, bounds = bnds, ctype = ct, curve_f = fo,
                      transfer_function = concat ramp_rows\<rparr>
          in (case evaluate self (linspace (fst bnds) (snd bnds) 256) of
                Inl e \<Rightarrow> Inl e
              | Inr val \<Rightarrow>
                  Inr (self\<lparr>transfer_function := concat (set_alpha ramp_rows val)\<rparr>)))"

section \<open>Double-precision arithmetic\<close>

text \<open>
  The geometry code computes in IEEE doubles. A double is a finite real, an infinity or
  nan. The two zeros are not told apart: they compare equal, and the only operation of
  the code whose result depends on the sign of a zero is a division by it, where the
  divisors are a sum of squares, a largest array dimension, and a dot product already
  tested to be away from zero. What never rounds is defined here: negation, comparison,
  \<^verbatim>\<open>np.sign\<close>, \<^verbatim>\<open>np.clip(x, 0.0, 1.0)\<close> and \<^verbatim>\<open>np.minimum\<close>.
\<close>

datatype float64 = Finite real | PosInf | NegInf | NaN

type_synonym fvec = "float64 \<times> float64 \<times> float64"

fun f_neg :: "float64 \<Rightarrow> float64" where
  "f_neg (Finite a) = Finite (- a)"
| "f_neg PosInf = NegInf"
| "f_neg NegInf = PosInf"
| "f_neg NaN = NaN"

fun f_less :: "float64 \<Rightarrow> float64 \<Rightarrow> bool" where
  "f_less (Finite a) (Finite b) = (a < b)"
| "f_less NaN y = False"
| "f_less x NaN = False"
| "f_less x NegInf = False"
| "f_less PosInf y = False"
| "f_less NegInf y = True"
| "f_less x PosInf = True"

text \<open>\<^verbatim>\<open>x <= y\<close> and \<^verbatim>\<open>x >= y\<close>: false when either side is nan.\<close>

definition f_le :: "float64 \<Rightarrow> float64 \<Rightarrow> bool" where
  "f_le x y = (x \<noteq> NaN \<and> y \<noteq> NaN \<and> \<not> f_less y x)"

definition f_ge :: "float64 \<Rightarrow> float64 \<Rightarrow> bool" where
  "f_ge x y = f_le y x"

fun f_sign :: "float64 \<Rightarrow> float64" where
  "f_sign (Finite a) = Finite (sgn a)"
| "f_sign PosInf = Finite 1"
| "f_sign NegInf = Finite (- 1)"
| "f_sign NaN = NaN"

fun f_clip :: "float64 \<Rightarrow> float64" where
  "f_clip (Finite a) = Finite (np_clip a 0 1)"
| "f_clip PosInf = Finite 1"
| "f_clip NegInf = Finite 0"
| "f_clip NaN = NaN"

definition f_minimum :: "float64 \<Rightarrow> float64 \<Rightarrow> float64" where
  "f_minimum x y = (if x = NaN \<or> y = NaN then NaN else if f_less y x then y else x)"

text \<open>
  What rounds is a parameter of the model: the four scalar operations, and the three
  library routines that sum products, each of which may add in an order of its own. A
  theorem stated for every \<open>ops\<close> holds for the doubles of any machine, whatever they
  round, underflow or overflow to.
\<close>

record np_ops =
  fadd :: "float64 \<Rightarrow> float64 \<Rightarrow> float64"
  fsub :: "float64 \<Rightarrow> float64 \<Rightarrow> float64"
  fmul :: "float64 \<Rightarrow> float64 \<Rightarrow> float64"
  fdiv :: "float64 \<Rightarrow> float64 \<Rightarrow> float64"
  einsum_row :: "fvec \<Rightarrow> fvec \<Rightarrow> float64"
  dot_row :: "fvec \<Rightarrow> fvec \<Rightarrow> float64"
  dot_vec :: "fvec \<Rightarrow> fvec \<Rightarrow> float64"

text \<open>
  \<open>einsum_row\<close> is one row of \<^verbatim>\<open>np.einsum('ij,ij->i', A, B)\<close>, \<open>dot_row\<close> one row of
  \<^verbatim>\<open>np.dot(A, v)\<close> for a matrix \<open>A\<close>, and \<open>dot_vec\<close> is \<^verbatim>\<open>np.dot(u, v)\<close> for two vectors;
  the result of a row depends on that row of the operands alone. Array arithmetic is
  element by element. All arrays hold doubles.
\<close>

fun fvsub :: "np_ops \<Rightarrow> fvec \<Rightarrow> fvec \<Rightarrow> fvec" where
  "fvsub ops (a1, a2, a3) (b1, b2, b3) = (fsub ops a1 b1, fsub ops a2 b2, fsub ops a3 b3)"

fun fvadd :: "np_ops \<Rightarrow> fvec \<Rightarrow> fvec \<Rightarrow> fvec" where
  "fvadd ops (a1, a2, a3) (b1, b2, b3) = (fadd ops a1 b1, fadd ops a2 b2, fadd ops a3 b3)"

text \<open>\<^verbatim>\<open>t * v\<close> for a scalar \<open>t\<close>, and \<^verbatim>\<open>v * t\<close>.\<close>

fun fsmul :: "np_ops \<Rightarrow> float64 \<Rightarrow> fvec \<Rightarrow> fvec" where
  "fsmul ops t (a1, a2, a3) = (fmul ops t a1, fmul ops t a2, fmul ops t a3)"

fun fvscale :: "np_ops \<Rightarrow> fvec \<Rightarrow> float64 \<Rightarrow> fvec" where
  "fvscale ops (a1, a2, a3) t = (fmul ops a1 t, fmul ops a2 t, fmul ops a3 t)"

text \<open>\<^verbatim>\<open>np.cross\<close> of two 3-vectors: two products and their difference per component.\<close>

fun fcross :: "np_ops \<Rightarrow> fvec \<Rightarrow> fvec \<Rightarrow> fvec" where
  "fcross ops (a1, a2, a3) (b1, b2, b3) =
     (fsub ops (fmul ops a2 b3) (fmul ops a3 b2),
      fsub ops (fmul ops a3 b1) (fmul ops a1 b3),
      fsub ops (fmul ops a1 b2) (fmul ops a2 b1))"

subsection \<open>Arithmetic that does not round\<close>

text \<open>
  The operations on the reals, with IEEE's rules for the infinities and nan. They are
  what the doubles compute whenever the exact result is a double, which is the case in
  the closed examples of this theory.
\<close>

fun x_add :: "float64 \<Rightarrow> float64 \<Rightarrow> float64" where
  "x_add (Finite a) (Finite b) = Finite (a + b)"
| "x_add NaN y = NaN"
| "x_add x NaN = NaN"
| "x_add PosInf NegInf = NaN"
| "x_add NegInf PosInf = NaN"
| "x_add PosInf y = PosInf"
| "x_add x PosInf = PosInf"
| "x_add NegInf y = NegInf"
| "x_add x NegInf = NegInf"

definition x_sub :: "float64 \<Rightarrow> float64 \<Rightarrow> float64" where
  "x_sub x y = x_add x (f_neg y)"

fun x_mul :: "float64 \<Rightarrow> float64 \<Rightarrow> float64" where
  "x_mul (Finite a) (Finite b) = Finite (a * b)"
| "x_mul NaN y = NaN"
| "x_mul x NaN = NaN"
| "x_mul (Finite a) PosInf = (if a = 0 then NaN else if 0 < a then PosInf else NegInf)"
| "x_mul (Finite a) NegInf = (if a = 0 then NaN else if 0 < a then NegInf else PosInf)"
| "x_mul PosInf (Finite b) = (if b = 0 then NaN else if 0 < b then PosInf else NegInf)"
| "x_mul NegInf (Finite b) = (if b = 0 then NaN else if 0 < b then NegInf else PosInf)"
| "x_mul PosInf PosInf = PosInf"
| "x_mul PosInf NegInf = NegInf"
| "x_mul NegInf PosInf = NegInf"
| "x_mul NegInf NegInf = PosInf"

text \<open>Division; a zero divisor is the positive zero.\<close>

fun x_div :: "float64 \<Rightarrow> float64 \<Rightarrow> float64" where
  "x_div (Finite a) (Finite b) =
     (if b = 0 then (if a = 0 then NaN else if 0 < a then PosInf else NegInf)
      else Finite (a / b))"
| "x_div NaN y = NaN"
| "x_div x NaN = NaN"
| "x_div (Finite a) PosInf = Finite 0"
| "x_div (Finite a) NegInf = Finite 0"
| "x_div PosInf (Finite b) = (if 0 \<le> b then PosInf else NegInf)"
| "x_div NegInf (Finite b) = (if 0 \<le> b then NegInf else PosInf)"
| "x_div PosInf y = NaN"
| "x_div NegInf y = NaN"

fun x_dot :: "fvec \<Rightarrow> fvec \<Rightarrow> float64" where
  "x_dot (a1, a2, a3) (b1, b2, b3) = x_add (x_add (x_mul a1 b1) (x_mul a2 b2)) (x_mul a3 b3)"

definition exact_ops :: np_ops where
  "exact_ops = \<lparr>fadd = x_add, fsub = x_sub, fmul = x_mul, fdiv = x_div,
                einsum_row = x_dot, dot_row = x_dot, dot_vec = x_dot\<rparr>"

text \<open>A finite vector.\<close>

fun fin3 :: "vec3 \<Rightarrow> fvec" where
  "fin3 (a1, a2, a3) = (Finite a1, Finite a2, Finite a3)"

section \<open>Volume.bin (core/geometry/volume.py)\<close>




record grid =
  shape :: "nat \<times> nat \<times> nat"
  voxels :: "nat \<times> nat \<times> nat \<Rightarrow> nat"




section \<open>Segment and plane (core/mesh/geometry.py)\<close>

record plane =
  point :: fvec
  normal :: fvec

text \<open>
  The module constant \<^verbatim>\<open>eps = 0.000001\<close>: the double nearest to one millionth, which is
  \<open>4722366482869645 / 2 ^ 72\<close> and a little less than \<open>1 / 1000000\<close>.
\<close>

definition eps :: real where
  "eps = 4722366482869645 / 2 ^ 72"

definition segment_plane_intersection :: "np_ops \<Rightarrow> fvec \<Rightarrow> fvec \<Rightarrow> plane \<Rightarrow> fvec option" where
  "segment_plane_intersection ops point_a point_b pl =
     (let ab = fvsub ops point_b point_a;
          n = f_neg (dot_vec ops (normal pl) (fvsub ops point_a (point pl)));
          d = dot_vec ops (normal pl) ab
      in if f_less (Finite (- eps)) d \<and> f_less d (Finite eps) then None
         else
           let t = fdiv ops n d
           in if f_le (Finite 0) t \<and> f_le t (Finite 1)
              then Some (fvadd ops point_a (fsmul ops t ab))
              else None)"

text \<open>
  One entry of \<^verbatim>\<open>np.dot(all_vertices - plane.point, plane.normal)\<close>: the signed distance
  of a vertex to the plane, as \<^verbatim>\<open>mesh_plane_intersection\<close> computes it.
\<close>

definition signed_dist :: "np_ops \<Rightarrow> plane \<Rightarrow> fvec \<Rightarrow> float64" where
  "signed_dist ops pl v = dot_row ops (fvsub ops v (point pl)) (normal pl)"


section \<open>mesh_plane_intersection (core/mesh/geometry.py)\<close>

text \<open>A triangle: its three vertices, nine doubles.\<close>

type_synonym face = "fvec \<times> fvec \<times> fvec"

text \<open>
  A mesh as the function reads it: the vertex array and the flat index array, three
  consecutive indices per face.
\<close>

record mesh =
  vertices :: "fvec list"
  indices :: "nat list"

text \<open>Fancy indexing \<^verbatim>\<open>arr[idx]\<close>: an index out of range raises IndexError.\<close>

definition gather :: "'a list \<Rightarrow> nat list \<Rightarrow> py_error + 'a list" where
  "gather xs idx =
     (if list_all (\<lambda>i. i < length xs) idx then Inr (map (\<lambda>i. xs ! i) idx)
      else Inl IndexError)"

text \<open>
  \<^verbatim>\<open>np.logical_and.reduceat(bs, offsets)\<close>: entry \<open>k\<close> reduces the slice from offset
  \<open>k\<close> up to offset \<open>k + 1\<close> (the last one up to the end); where the next offset is not
  larger, the entry is the single element at the offset.
\<close>

fun reduceat_and :: "bool list \<Rightarrow> nat list \<Rightarrow> bool list" where
  "reduceat_and bs [] = []"
| "reduceat_and bs [i] = [list_all id (drop i bs)]"
| "reduceat_and bs (i # j # js) =
     (if i < j then list_all id (take (j - i) (drop i bs)) else bs ! i)
       # reduceat_and bs (j # js)"

text \<open>\<^verbatim>\<open>range(0, n, 3)\<close>.\<close>

definition range3 :: "nat \<Rightarrow> nat list" where
  "range3 n = map (\<lambda>k. 3 * k) [0..<(n + 2) div 3]"

text \<open>\<^verbatim>\<open>np.delete((0, 1, 2), ks)\<close>: the entries whose position is not among \<open>ks\<close>.\<close>

definition np_delete :: "nat list \<Rightarrow> nat list \<Rightarrow> nat list" where
  "np_delete xs ks = map (\<lambda>i. xs ! i) (filter (\<lambda>i. i \<notin> set ks) [0..<length xs])"

text \<open>A row \<^verbatim>\<open>vertices[i, :]\<close> of the three-row slice of one face.\<close>

definition row :: "fvec list \<Rightarrow> nat \<Rightarrow> py_error + fvec" where
  "row vs i = (if i < length vs then Inr (vs ! i) else Inl IndexError)"

text \<open>
  The inner loop \<^verbatim>\<open>for i, j in face_indices\<close>: it returns what the face appends to
  \<^verbatim>\<open>segments\<close>, which is the pair of points as soon as there are two, and nothing when
  the edges run out first.
\<close>

fun edge_loop ::
  "np_ops \<Rightarrow> plane \<Rightarrow> fvec list \<Rightarrow> (nat \<times> nat) list \<Rightarrow> fvec list \<Rightarrow>
   py_error + fvec list" where
  "edge_loop ops pl vs [] points = Inr []"
| "edge_loop ops pl vs ((i, j) # rest) points =
     (case row vs i of
        Inl e \<Rightarrow> Inl e
      | Inr a \<Rightarrow>
          (case row vs j of
             Inl e \<Rightarrow> Inl e
           | Inr b \<Rightarrow>
               let points' = (case segment_plane_intersection ops a b pl of
                                None \<Rightarrow> points
                              | Some q \<Rightarrow> points @ [q])
               in if length points' = 2 then Inr [points' ! 0, points' ! 1]
                  else edge_loop ops pl vs rest points'))"

text \<open>The body of the loop over the candidate faces, for one slice of three distances.\<close>

definition face_body ::
  "np_ops \<Rightarrow> plane \<Rightarrow> float64 list \<Rightarrow> fvec list \<Rightarrow> py_error + fvec list" where
  "face_body ops pl ds vs =
     (let nonzeros = filter (\<lambda>i. ds ! i \<noteq> Finite 0) [0..<length ds]
      in if length nonzeros = 0 then Inr []
         else if length nonzeros = 1 then
           (let tmp = np_delete [0, 1, 2] [nonzeros ! 0]
            in case row vs (tmp ! 0) of
                 Inl e \<Rightarrow> Inl e
               | Inr a \<Rightarrow> (case row vs (tmp ! 1) of Inl e \<Rightarrow> Inl e | Inr b \<Rightarrow> Inr [a, b]))
         else if length nonzeros = 2 then
           (let tmp = np_delete [0, 1, 2] nonzeros
            in case row vs (tmp ! 0) of
                 Inl e \<Rightarrow> Inl e
               | Inr z \<Rightarrow> edge_loop ops pl vs [(nonzeros ! 0, nonzeros ! 1)] [z])
         else edge_loop ops pl vs [(0, 1), (1, 2), (0, 2)] [])"

fun face_loop ::
  "np_ops \<Rightarrow> plane \<Rightarrow> float64 list \<Rightarrow> fvec list \<Rightarrow> nat list \<Rightarrow> fvec list \<Rightarrow>
   py_error + fvec list" where
  "face_loop ops pl all_dist all_vertices [] segments = Inr segments"
| "face_loop ops pl all_dist all_vertices (index # rest) segments =
     (case face_body ops pl (take 3 (drop index all_dist)) (take 3 (drop index all_vertices)) of
        Inl e \<Rightarrow> Inl e
      | Inr new \<Rightarrow> face_loop ops pl all_dist all_vertices rest (segments @ new))"

definition mesh_plane_intersection :: "np_ops \<Rightarrow> mesh \<Rightarrow> plane \<Rightarrow> py_error + fvec list" where
  "mesh_plane_intersection ops m pl =
     (case gather (vertices m) (indices m) of
        Inl e \<Rightarrow> Inl e
      | Inr all_vertices \<Rightarrow>
          let all_dist = map (signed_dist ops pl) all_vertices;
              offsets = range3 (length all_vertices);
              gg = reduceat_and (map (\<lambda>d. f_less (Finite 0) d) all_dist) offsets;
              ll = reduceat_and (map (\<lambda>d. f_less d (Finite 0)) all_dist) offsets;
              idx = map (\<lambda>k. k * 3) (filter (\<lambda>k. \<not> ll ! k \<and> \<not> gg ! k) [0..<length gg])
          in if idx = [] then Inr []
             else face_loop ops pl all_dist all_vertices idx [])"

text \<open>
  The specification's reading, face by face. A triangular mesh has three indices per
  face, each of them the position of a vertex; its faces are the consecutive triples of
  the indexed vertices.
\<close>

definition triangular :: "mesh \<Rightarrow> bool" where
  "triangular m =
     (length (indices m) mod 3 = 0 \<and> list_all (\<lambda>i. i < length (vertices m)) (indices m))"

fun triples :: "'a list \<Rightarrow> ('a \<times> 'a \<times> 'a) list" where
  "triples (a # b # c # rest) = (a, b, c) # triples rest"
| "triples rest = []"

definition mesh_faces :: "mesh \<Rightarrow> face list" where
  "mesh_faces m = triples (map (\<lambda>i. vertices m ! i) (indices m))"

definition first_two :: "'a list \<Rightarrow> 'a list" where
  "first_two xs = (if 2 \<le> length xs then take 2 xs else [])"

definition spec_face_segments :: "np_ops \<Rightarrow> plane \<Rightarrow> face \<Rightarrow> fvec list" where
  "spec_face_segments ops pl f =
     (case f of (a, b, c) \<Rightarrow>
        let da = signed_dist ops pl a; db = signed_dist ops pl b; dc = signed_dist ops pl c
        in if (f_less (Finite 0) da \<and> f_less (Finite 0) db \<and> f_less (Finite 0) dc) \<or>
              (f_less da (Finite 0) \<and> f_less db (Finite 0) \<and> f_less dc (Finite 0)) then []
           else if da = Finite 0 \<and> db = Finite 0 \<and> dc = Finite 0 then []
           else if db = Finite 0 \<and> dc = Finite 0 then [b, c]
           else if da = Finite 0 \<and> dc = Finite 0 then [a, c]
           else if da = Finite 0 \<and> db = Finite 0 then [a, b]
           else if da = Finite 0 then
             (case segment_plane_intersection ops b c pl of None \<Rightarrow> [] | Some q \<Rightarrow> [a, q])
           else if db = Finite 0 then
             (case segment_plane_intersection ops a c pl of None \<Rightarrow> [] | Some q \<Rightarrow> [b, q])
           else if dc = Finite 0 then
             (case segment_plane_intersection ops a b pl of None \<Rightarrow> [] | Some q \<Rightarrow> [c, q])
           else first_two
                  (List.map_filter (\<lambda>(x, y). segment_plane_intersection ops x y pl)
                     [(a, b), (b, c), (a, c)]))"

section \<open>Volume placement (core/geometry/volume.py)\<close>

text \<open>
  Modelled from the spec: \<^verbatim>\<open>Matrix44\<close> (core/math/matrix.py) is not among the sources.
  The specification calls it a 4 x 4 homogeneous transform, with the identity, the
  translation by a vector, and the matrix product \<^verbatim>\<open>@\<close>.
\<close>

type_synonym mat44 = "real list list"

definition mat_mul :: "mat44 \<Rightarrow> mat44 \<Rightarrow> mat44" where
  "mat_mul A B =
     map (\<lambda>r. map (\<lambda>j. sum_list (map2 (*) r (map (\<lambda>br. br ! j) B))) [0..<4]) A"

definition identity44 :: mat44 where
  "identity44 = [[1, 0, 0, 0], [0, 1, 0, 0], [0, 0, 1, 0], [0, 0, 0, 1]]"

definition fromTranslation :: "vec3 \<Rightarrow> mat44" where
  "fromTranslation t =
     (case t of (x, y, z) \<Rightarrow> [[1, 0, 0, x], [0, 1, 0, y], [0, 0, 1, z], [0, 0, 0, 1]])"

text \<open>\<^verbatim>\<open>rot_matrix = Matrix44.identity(); rot_matrix[:3, :3] = matrix[:3, :3]\<close>.\<close>

definition embed33 :: "real list list \<Rightarrow> mat44" where
  "embed33 m =
     map (\<lambda>i. map (\<lambda>j. if i < 3 \<and> j < 3 then m ! i ! j else identity44 ! i ! j) [0..<4])
       [0..<4]"

text \<open>
  The fields of a Volume that the placement methods read or write. \<^verbatim>\<open>BoundingBox\<close>
  (core/geometry/mesh.py) is not among the sources either, and the specification does
  not say how a box is passed through a transform, so the type of boxes, the constructor
  \<^verbatim>\<open>BoundingBox(max, min)\<close> and the method \<^verbatim>\<open>BoundingBox.transform\<close> are parameters.
\<close>

record 'b volume =
  vol_data :: grid
  voxel_size :: vec3
  transform_matrix :: mat44
  bounding_box :: 'b

definition extent :: "grid \<Rightarrow> vec3 \<Rightarrow> vec3" where
  "extent d vs =
     (case (vs, shape d) of ((x, y, z), (s1, s2, s3)) \<Rightarrow> (x * real s1, y * real s2, z * real s3))"

definition local_box :: "(vec3 \<Rightarrow> vec3 \<Rightarrow> 'b) \<Rightarrow> grid \<Rightarrow> vec3 \<Rightarrow> 'b" where
  "local_box box d vs = box (smul (1 / 2) (extent d vs)) (smul (- (1 / 2)) (extent d vs))"

definition Volume_init ::
  "(vec3 \<Rightarrow> vec3 \<Rightarrow> 'b) \<Rightarrow> ('b \<Rightarrow> mat44 \<Rightarrow> 'b) \<Rightarrow> grid \<Rightarrow> vec3 \<Rightarrow> vec3 \<Rightarrow> 'b volume" where
  "Volume_init box box_transform d vs centre =
     \<lparr>vol_data = d, voxel_size = vs, transform_matrix = fromTranslation centre,
      bounding_box = box_transform (local_box box d vs) (fromTranslation centre)\<rparr>"

definition transform :: "('b \<Rightarrow> mat44 \<Rightarrow> 'b) \<Rightarrow> 'b volume \<Rightarrow> mat44 \<Rightarrow> 'b volume" where
  "transform box_transform self matrix =
     self\<lparr>transform_matrix := mat_mul matrix (transform_matrix self),
          bounding_box := box_transform (bounding_box self) matrix\<rparr>"

definition rotate :: "('b \<Rightarrow> mat44 \<Rightarrow> 'b) \<Rightarrow> 'b volume \<Rightarrow> real list list \<Rightarrow> 'b volume" where
  "rotate box_transform self matrix = transform box_transform self (embed33 matrix)"

definition translate :: "('b \<Rightarrow> mat44 \<Rightarrow> 'b) \<Rightarrow> 'b volume \<Rightarrow> vec3 \<Rightarrow> 'b volume" where
  "translate box_transform self offset = transform box_transform self (fromTranslation offset)"

text \<open>A finite sequence of calls of the three mutators.\<close>

datatype placement_call = Rotate "real list list" | Translate vec3 | Transform mat44

fun call_matrix :: "placement_call \<Rightarrow> mat44" where
  "call_matrix (Rotate m) = embed33 m"
| "call_matrix (Translate t) = fromTranslation t"
| "call_matrix (Transform m) = m"

fun apply_call :: "('b \<Rightarrow> mat44 \<Rightarrow> 'b) \<Rightarrow> 'b volume \<Rightarrow> placement_call \<Rightarrow> 'b volume" where
  "apply_call bt self (Rotate m) = rotate bt self m"
| "apply_call bt self (Translate t) = translate bt self t"
| "apply_call bt self (Transform m) = transform bt self m"

definition apply_calls ::
  "('b \<Rightarrow> mat44 \<Rightarrow> 'b) \<Rightarrow> 'b volume \<Rightarrow> placement_call list \<Rightarrow> 'b volume" where
  "apply_calls bt self calls = foldl (apply_call bt) self calls"

section \<open>closest_triangle_to_point (core/mesh/geometry.py)\<close>

text \<open>
  \<^verbatim>\<open>ndarray.argmin\<close>: a scan that keeps the first smallest value and stops at the first
  nan, which it returns; an empty array raises.
\<close>

fun argmin_scan :: "float64 list \<Rightarrow> nat \<Rightarrow> float64 \<Rightarrow> nat \<Rightarrow> nat" where
  "argmin_scan [] i mp min_ind = min_ind"
| "argmin_scan (x # xs) i mp min_ind =
     (if f_ge x mp then argmin_scan xs (Suc i) mp min_ind
      else if x = NaN then i
      else argmin_scan xs (Suc i) x i)"

definition argmin :: "float64 list \<Rightarrow> py_error + nat" where
  "argmin xs =
     (case xs of
        [] \<Rightarrow> Inl ValueError
      | x # rest \<Rightarrow> Inr (if x = NaN then 0 else argmin_scan rest 1 x 0))"

text \<open>
  Boolean-mask indexing \<^verbatim>\<open>arr[mask]\<close> and the assignment \<^verbatim>\<open>arr[mask] = values\<close>, which
  writes the values, in order, to the slots where the mask holds. (The source always
  assigns as many values as the mask selects.)
\<close>

definition select :: "bool list \<Rightarrow> 'a list \<Rightarrow> 'a list" where
  "select m xs = map snd (filter fst (zip m xs))"

fun scatter :: "'a list \<Rightarrow> bool list \<Rightarrow> 'a list \<Rightarrow> 'a list" where
  "scatter (d # ds) (True # bs) (v # vs) = v # scatter ds bs vs"
| "scatter (d # ds) (b # bs) vs = d # scatter ds bs vs"
| "scatter ds bs vs = ds"

text \<open>
  The three edge blocks of the loop body are the same text on different arrays:
  \<^verbatim>\<open>temp = oo * np.clip(einsum(oo, ooo) * dot_v[mask], 0.0, 1.0)[:, np.newaxis] - ooo\<close>,
  \<^verbatim>\<open>temp = einsum(temp, temp)\<close>. One row of it:
\<close>

definition edge_elem :: "np_ops \<Rightarrow> fvec \<Rightarrow> fvec \<Rightarrow> float64 \<Rightarrow> float64" where
  "edge_elem ops e q r =
     (let t = f_clip (fmul ops (einsum_row ops e q) r);
          temp = fvsub ops (fvscale ops e t) q
      in einsum_row ops temp temp)"

definition edge_temp :: "np_ops \<Rightarrow> fvec list \<Rightarrow> fvec list \<Rightarrow> float64 list \<Rightarrow> float64 list" where
  "edge_temp ops oo ooo dot_v = map (\<lambda>(e, q, r). edge_elem ops e q r) (zip oo (zip ooo dot_v))"

text \<open>The arrays computed once, before the loop over the points.\<close>

record tri_arrays =
  v1 :: "fvec list"
  v2 :: "fvec list"
  v3 :: "fvec list"
  v21 :: "fvec list"
  v32 :: "fvec list"
  v13 :: "fvec list"
  nor :: "fvec list"
  c13 :: "fvec list"
  c32 :: "fvec list"
  c21 :: "fvec list"
  dot_v21 :: "float64 list"
  dot_v32 :: "float64 list"
  dot_v13 :: "float64 list"
  dot_nor :: "float64 list"

definition tri_setup :: "np_ops \<Rightarrow> face list \<Rightarrow> tri_arrays" where
  "tri_setup ops faces =
     (let a1 = map (\<lambda>(a, b, c). a) faces;
          a2 = map (\<lambda>(a, b, c). b) faces;
          a3 = map (\<lambda>(a, b, c). c) faces;
          a21 = map2 (fvsub ops) a2 a1;
          a32 = map2 (fvsub ops) a3 a2;
          a13 = map2 (fvsub ops) a1 a3;
          n = map2 (fcross ops) a21 a13
      in \<lparr>v1 = a1, v2 = a2, v3 = a3, v21 = a21, v32 = a32, v13 = a13, nor = n,
          c13 = map2 (fcross ops) a13 n, c32 = map2 (fcross ops) a32 n,
          c21 = map2 (fcross ops) a21 n,
          dot_v21 = map (\<lambda>v. fdiv ops (Finite 1) (einsum_row ops v v)) a21,
          dot_v32 = map (\<lambda>v. fdiv ops (Finite 1) (einsum_row ops v v)) a32,
          dot_v13 = map (\<lambda>v. fdiv ops (Finite 1) (einsum_row ops v v)) a13,
          dot_nor = map (\<lambda>v. fdiv ops (Finite 1) (einsum_row ops v v)) n\<rparr>)"

text \<open>The body of the loop up to \<^verbatim>\<open>dist[mask] = ...\<close>: the distance array of one point.\<close>

definition point_dist :: "np_ops \<Rightarrow> tri_arrays \<Rightarrow> fvec \<Rightarrow> float64 list" where
  "point_dist ops ar pt =
     (let dist = replicate (length (v1 ar)) (Finite 0);
          p1 = map (fvsub ops pt) (v1 ar);
          p2 = map (fvsub ops pt) (v2 ar);
          p3 = map (fvsub ops pt) (v3 ar);
          mask = map (\<lambda>(s1, s2, s3). f_less (fadd ops (fadd ops s1 s2) s3) (Finite 2))
                   (zip (map f_sign (map2 (einsum_row ops) (c21 ar) p1))
                      (zip (map f_sign (map2 (einsum_row ops) (c32 ar) p2))
                         (map f_sign (map2 (einsum_row ops) (c13 ar) p3))));
          temp = edge_temp ops (select mask (v21 ar)) (select mask p1) (select mask (dot_v21 ar));
          temp_2 = edge_temp ops (select mask (v32 ar)) (select mask p2) (select mask (dot_v32 ar));
          temp_3 = edge_temp ops (select mask (v13 ar)) (select mask p3) (select mask (dot_v13 ar));
          inv_mask = map Not mask;
          temp_4 = map2 (einsum_row ops) (select inv_mask (nor ar)) (select inv_mask p1);
          dist1 = scatter dist inv_mask
                    (map2 (\<lambda>t r. fmul ops (fmul ops t t) r) temp_4
                       (select inv_mask (dot_nor ar)));
          dist2 = scatter dist1 mask
                    (map2 f_minimum temp (map2 f_minimum temp_2 temp_3))
      in dist2)"

text \<open>Running a list of results up to the first exception.\<close>

fun collect :: "('e + 'a) list \<Rightarrow> 'e + 'a list" where
  "collect [] = Inr []"
| "collect (Inl e # rs) = Inl e"
| "collect (Inr x # rs) = (case collect rs of Inl e \<Rightarrow> Inl e | Inr xs \<Rightarrow> Inr (x # xs))"

definition closest_triangle_to_point ::
  "np_ops \<Rightarrow> face list \<Rightarrow> fvec list \<Rightarrow> py_error + face list" where
  "closest_triangle_to_point ops faces points =
     (let ar = tri_setup ops faces
      in collect
           (map (\<lambda>pt. case argmin (point_dist ops ar pt) of
                         Inl e \<Rightarrow> Inl e
                       | Inr i \<Rightarrow> Inr (faces ! i))
              points))"

text \<open>
  The distance of a point to one triangle as the specification words it, in the double
  arithmetic of the code: with \<open>nor = v21 \<times> v13\<close>, when the signs of \<open>c21 \<cdot> p1\<close>,
  \<open>c32 \<cdot> p2\<close> and \<open>c13 \<cdot> p3\<close> add up to less than 2 it is the minimum of the three
  squared distances to the edges (projection parameter clamped to \<open>[0, 1]\<close>), and
  otherwise the squared distance to the plane, \<open>(nor \<cdot> p1)\<^sup>2\<close> times the reciprocal of
  \<open>nor \<cdot> nor\<close>.
\<close>

definition spec_edge_dist :: "np_ops \<Rightarrow> fvec \<Rightarrow> fvec \<Rightarrow> float64" where
  "spec_edge_dist ops e q =
     (let t = f_clip (fmul ops (einsum_row ops e q) (fdiv ops (Finite 1) (einsum_row ops e e)));
          to_foot = fvsub ops (fvscale ops e t) q
      in einsum_row ops to_foot to_foot)"

definition spec_triangle_dist :: "np_ops \<Rightarrow> fvec \<Rightarrow> face \<Rightarrow> float64" where
  "spec_triangle_dist ops p f =
     (case f of (a, b, c) \<Rightarrow>
        let e21 = fvsub ops b a; e32 = fvsub ops c b; e13 = fvsub ops a c;
            n = fcross ops e21 e13;
            p1 = fvsub ops p a; p2 = fvsub ops p b; p3 = fvsub ops p c;
            s1 = f_sign (einsum_row ops (fcross ops e21 n) p1);
            s2 = f_sign (einsum_row ops (fcross ops e32 n) p2);
            s3 = f_sign (einsum_row ops (fcross ops e13 n) p3)
        in if f_less (fadd ops (fadd ops s1 s2) s3) (Finite 2)
           then f_minimum (spec_edge_dist ops e21 p1)
                  (f_minimum (spec_edge_dist ops e32 p2) (spec_edge_dist ops e13 p3))
           else fmul ops (fmul ops (einsum_row ops n p1) (einsum_row ops n p1))
                  (fdiv ops (Finite 1) (einsum_row ops n n)))"

text \<open>
  Where \<^verbatim>\<open>argmin\<close> lands on an array of distances: on the first nan if there is one, and
  otherwise on the first entry that no entry is below.
\<close>

definition first_least :: "float64 list \<Rightarrow> nat \<Rightarrow> bool" where
  "first_least ds i =
     (i < length ds \<and>
      (if NaN \<in> set ds then ds ! i = NaN \<and> (\<forall>j < i. ds ! j \<noteq> NaN)
       else (\<forall>j < length ds. f_le (ds ! i) (ds ! j)) \<and> (\<forall>j < i. f_less (ds ! i) (ds ! j))))"

section \<open>Element-wise reading and stand-ins for the libraries\<close>

text \<open>
  What \<^verbatim>\<open>Curve.evaluate\<close> leaves in one slot of its result, written for a single
  input: the two masked writes come last, the one for \<^verbatim>\<open>inputs > self.inputs[-1]\<close>
  after the one for \<^verbatim>\<open>inputs < self.inputs[0]\<close>. Lemma \<open>evaluate_Inr\<close> proves that
  \<open>evaluate\<close> computes exactly this in every slot.
\<close>

definition evaluate1 :: "curve \<Rightarrow> real \<Rightarrow> real" where
  "evaluate1 c x =
     (if last (inputs c) < x then last (outputs c)
      else if x < hd (inputs c) then hd (outputs c)
      else np_clip (case curve_f c of None \<Rightarrow> hd (outputs c) | Some g \<Rightarrow> g x) 0 1)"

text \<open>
  Concrete library stand-ins for closed examples: a fitting routine that rejects every
  request, one that returns the zero function, and a resampler that fills the buffer
  with zeros.
\<close>

definition no_fit :: "curve_type \<Rightarrow> real list \<Rightarrow> real list \<Rightarrow> (real \<Rightarrow> real) option" where
  "no_fit ct ins outs = None"

definition zero_fit :: "curve_type \<Rightarrow> real list \<Rightarrow> real list \<Rightarrow> (real \<Rightarrow> real) option" where
  "zero_fit ct ins outs = Some (\<lambda>x. 0)"


section \<open>Curve: results\<close>

lemma mask_assign_length:
  "length m = length xs \<Longrightarrow> length (mask_assign xs m v) = length xs"
  by (simp add: mask_assign_def)

lemma mask_assign_nth:
  "length m = length xs \<Longrightarrow> i < length xs \<Longrightarrow>
   mask_assign xs m v ! i = (if m ! i then v else xs ! i)"
  by (simp add: mask_assign_def)

lemma np_clip_unit: "0 \<le> np_clip v 0 1 \<and> np_clip v 0 1 \<le> 1"
  by (simp add: np_clip_def)

lemma evaluate_Inl:
  "outputs c = [] \<or> inputs c = [] \<Longrightarrow> evaluate c xs = Inl IndexError"
  by (auto simp: evaluate_def split: option.splits list.splits sum.splits)

lemma evaluate_Inr:
  assumes "outputs c \<noteq> []" and "inputs c \<noteq> []"
  shows "evaluate c xs = Inr (map (evaluate1 c) xs)"
proof -
  obtain o1 os where o: "outputs c = o1 # os"
    using assms(1) by (cases "outputs c") auto
  show ?thesis
  proof (cases "curve_f c")
    case None
    have "mask_assign
            (mask_assign (map (\<lambda>v. np_clip v 0 1) (replicate (length xs) o1))
               (map (\<lambda>x. x < hd (inputs c)) xs) o1)
            (map (\<lambda>x. last (inputs c) < x) xs) (last (outputs c))
          = map (evaluate1 c) xs"
      by (rule nth_equalityI)
        (simp_all add: mask_assign_length mask_assign_nth evaluate1_def None o)
    then show ?thesis
      using assms None o by (simp add: evaluate_def)
  next
    case (Some g)
    have "mask_assign
            (mask_assign (map (\<lambda>v. np_clip v 0 1) (map g xs))
               (map (\<lambda>x. x < hd (inputs c)) xs) o1)
            (map (\<lambda>x. last (inputs c) < x) xs) (last (outputs c))
          = map (evaluate1 c) xs"
      by (rule nth_equalityI)
        (simp_all add: mask_assign_length mask_assign_nth evaluate1_def Some o)
    then show ?thesis
      using assms Some o by (simp add: evaluate_def)
  qed
qed

lemma Curve_init_cases:
  "Curve_init fit ins outs bnds ct =
     (if 1 < length ins \<and> fit ct ins outs = None then Inl LibraryError
      else if outs = [] \<or> ins = [] then Inl IndexError
      else Inr \<lparr>inputs = ins, outputs = outs, bounds = bnds, ctype = ct,
                curve_f = (if 1 < length ins then fit ct ins outs else None),
                transfer_function =
                  concat (set_alpha ramp_rows
                    (map (evaluate1 \<lparr>inputs = ins, outputs = outs, bounds = bnds, ctype = ct,
                            curve_f = (if 1 < length ins then fit ct ins outs else None),
                            transfer_function = concat ramp_rows\<rparr>)
                       (linspace (fst bnds) (snd bnds) 256)))\<rparr>)"
  by (auto simp: Curve_init_def Let_def evaluate_Inl evaluate_Inr split: option.splits)

lemma Curve_init_fields:
  assumes "Curve_init fit ins outs bnds ct = Inr c"
  shows "inputs c = ins" "outputs c = outs" "ins \<noteq> []" "outs \<noteq> []"
    "curve_f c = (if 1 < length ins then fit ct ins outs else None)"
  using assms by (auto simp: Curve_init_cases split: if_splits)

text \<open>
  Claim C5, amended. A constructed curve evaluates every input to a value in \<open>[0, 1]\<close>
  when the input lies between the first and the last input point, or when the first and
  the last output value lie in \<open>[0, 1]\<close>. (Outside the input range the result is the first or
  last output value as given, after the clamp, so an output value outside \<open>[0, 1]\<close> comes
  back unchanged.)
\<close>

theorem evaluate_unit_interval:
  assumes "Curve_init fit ins outs bnds ct = Inr c"
    and "i < length xs"
    and "(hd ins \<le> xs ! i \<and> xs ! i \<le> last ins) \<or>
         (0 \<le> hd outs \<and> hd outs \<le> 1 \<and> 0 \<le> last outs \<and> last outs \<le> 1)"
  shows "\<exists>ys. evaluate c xs = Inr ys \<and> length ys = length xs \<and> 0 \<le> ys ! i \<and> ys ! i \<le> 1"
proof -
  note f = Curve_init_fields [OF assms(1)]
  have e: "evaluate c xs = Inr (map (evaluate1 c) xs)"
    using f by (simp add: evaluate_Inr)
  have "0 \<le> evaluate1 c (xs ! i) \<and> evaluate1 c (xs ! i) \<le> 1"
    using assms(3) np_clip_unit f(1,2) by (auto simp: evaluate1_def)
  then show ?thesis
    using e assms(2) by simp
qed

theorem evaluate_unit_interval_witness:
  "\<exists>ys. evaluate (projr (Curve_init no_fit [0] [1 / 2] (0, 1) Linear)) [5] = Inr ys \<and>
        length ys = 1 \<and> 0 \<le> ys ! 0 \<and> ys ! 0 \<le> 1"
proof -
  have c: "Curve_init no_fit [0] [1 / 2] (0, 1) Linear
             = Inr (projr (Curve_init no_fit [0] [1 / 2] (0, 1) Linear))"
    by (simp add: Curve_init_cases)
  show ?thesis
    using evaluate_unit_interval [OF c, of 0 "[5]"] by simp
qed

text \<open>
  Claim C5 as stated fails: a one-point curve with output value 3 evaluates an input
  above its input point to 3.
\<close>

theorem evaluate_unclamped_counterexample:
  "\<not> isl (Curve_init no_fit [10] [3] (0, 1) Linear) \<and>
   evaluate (projr (Curve_init no_fit [10] [3] (0, 1) Linear)) [20] = Inr [3] \<and> \<not> (3::real) \<le> 1"
  by (simp add: Curve_init_cases evaluate_Inr evaluate1_def)

text \<open>
  Claim C6, amended. For a constructed curve (it has at least one input point) whose
  first input does not exceed its last: every input below the first input point evaluates
  to the first output value, and every input above the last input point to the last
  output value, whatever the fitted model is.
\<close>

theorem evaluate_flat_extrapolation:
  assumes "Curve_init fit ins outs bnds ct = Inr c"
    and "i < length xs"
    and "hd ins \<le> last ins"
  shows "\<exists>ys. evaluate c xs = Inr ys \<and> length ys = length xs \<and>
           (xs ! i < hd ins \<longrightarrow> ys ! i = hd outs) \<and>
           (last ins < xs ! i \<longrightarrow> ys ! i = last outs)"
proof -
  note f = Curve_init_fields [OF assms(1)]
  have e: "evaluate c xs = Inr (map (evaluate1 c) xs)"
    using f by (simp add: evaluate_Inr)
  show ?thesis
    using e assms(2,3) f(1,2) by (auto simp: evaluate1_def)
qed

theorem evaluate_flat_extrapolation_witness:
  "\<exists>ys. evaluate (projr (Curve_init zero_fit [0, 1] [1 / 4, 3 / 4] (0, 1) Linear)) [- 1, 2]
          = Inr ys \<and>
        length ys = 2 \<and> ys ! 0 = 1 / 4 \<and> ys ! 1 = 3 / 4"
proof -
  have c: "Curve_init zero_fit [0, 1] [1 / 4, 3 / 4] (0, 1) Linear
             = Inr (projr (Curve_init zero_fit [0, 1] [1 / 4, 3 / 4] (0, 1) Linear))"
    by (simp add: Curve_init_cases zero_fit_def)
  have o: "hd [0, 1 :: real] \<le> last [0, 1]" by simp
  have i0: "0 < length [- 1, 2 :: real]" and i1: "1 < length [- 1, 2 :: real]" by simp_all
  show ?thesis
    using evaluate_flat_extrapolation [OF c i0 o] evaluate_flat_extrapolation [OF c i1 o]
    by (auto simp: numeral_2_eq_2)
qed

text \<open>
  Claim C6 as stated fails: the two masked writes are made in turn, so with the inputs
  \<open>[1, 0]\<close> an input of \<open>1 / 2\<close>, which is below the first input point and above the last,
  evaluates to the last output value and not to the first.
\<close>

theorem evaluate_decreasing_inputs_counterexample:
  "\<not> isl (Curve_init zero_fit [1, 0] [1 / 4, 3 / 4] (0, 1) Linear) \<and>
   (1 / 2 :: real) < hd [1, 0] \<and>
   evaluate (projr (Curve_init zero_fit [1, 0] [1 / 4, 3 / 4] (0, 1) Linear)) [1 / 2]
     = Inr [3 / 4] \<and>
   hd [1 / 4, 3 / 4 :: real] \<noteq> 3 / 4"
  by (simp add: Curve_init_cases zero_fit_def evaluate_Inr evaluate1_def)

text \<open>
  Claim C7, amended. A curve constructed from fewer than two input points has no fitted
  model, and it evaluates an input equal to its input point to the first output value
  clamped to \<open>[0, 1]\<close>, an input below it to the first output value as given, and an input
  above it to the last output value as given.
\<close>

theorem constant_curve:
  assumes "Curve_init fit ins outs bnds ct = Inr c"
    and "length ins < 2"
  shows "curve_f c = None \<and>
         evaluate c xs =
           Inr (map (\<lambda>x. if hd ins < x then last outs
                          else if x < hd ins then hd outs
                          else np_clip (hd outs) 0 1) xs)"
proof -
  note f = Curve_init_fields [OF assms(1)]
  have l: "last ins = hd ins"
    using f(3) assms(2) by (cases ins) auto
  have n: "curve_f c = None"
    using f(5) assms(2) by simp
  have "evaluate c xs = Inr (map (evaluate1 c) xs)"
    using f by (simp add: evaluate_Inr)
  moreover have "evaluate1 c = (\<lambda>x. if hd ins < x then last outs
                          else if x < hd ins then hd outs
                          else np_clip (hd outs) 0 1)"
    using f(1,2) n l by (auto simp: evaluate1_def fun_eq_iff)
  ultimately show ?thesis
    using n by simp
qed

theorem constant_curve_witness:
  "curve_f (projr (Curve_init no_fit [0] [2] (0, 1) Cubic)) = None \<and>
   evaluate (projr (Curve_init no_fit [0] [2] (0, 1) Cubic)) [-1, 0, 1] = Inr [2, 1, 2]"
proof -
  have c: "Curve_init no_fit [0] [2] (0, 1) Cubic
             = Inr (projr (Curve_init no_fit [0] [2] (0, 1) Cubic))"
    by (simp add: Curve_init_cases)
  have l: "length [0::real] < 2" by simp
  show ?thesis
    using constant_curve [OF c l, of "[-1, 0, 1]"] by (simp add: np_clip_def)
qed

text \<open>
  Claim C7 as stated fails: the one-point curve with output value 2 evaluates an input
  below its input point to 2, while 2 clamped to \<open>[0, 1]\<close> is 1.
\<close>

theorem constant_curve_counterexample:
  "\<not> isl (Curve_init no_fit [0] [2] (0, 1) Cubic) \<and>
   evaluate (projr (Curve_init no_fit [0] [2] (0, 1) Cubic)) [-1] = Inr [2] \<and>
   np_clip 2 0 1 = 1"
  by (simp add: Curve_init_cases evaluate_Inr evaluate1_def np_clip_def)

text \<open>
  Claim C8, amended. Construction compares no lengths. With two or more input points it
  fails when the fitting library rejects the points; otherwise it fails, with an
  IndexError, exactly when the inputs or the outputs are empty; in every other case it
  returns a curve holding the inputs and outputs as given. A failure returns no curve.
\<close>

theorem Curve_init_failure:
  "(1 < length ins \<and> fit ct ins outs = None \<longrightarrow>
      Curve_init fit ins outs bnds ct = Inl LibraryError) \<and>
   (\<not> (1 < length ins \<and> fit ct ins outs = None) \<and> (ins = [] \<or> outs = []) \<longrightarrow>
      Curve_init fit ins outs bnds ct = Inl IndexError) \<and>
   (\<not> (1 < length ins \<and> fit ct ins outs = None) \<and> ins \<noteq> [] \<and> outs \<noteq> [] \<longrightarrow>
      (\<exists>c. Curve_init fit ins outs bnds ct = Inr c \<and> inputs c = ins \<and> outputs c = outs))"
  by (auto simp: Curve_init_cases)

theorem Curve_init_failure_witness:
  "Curve_init no_fit [0, 1] [0, 1] (0, 1) Cubic = Inl LibraryError \<and>
   Curve_init no_fit [] [] (0, 1) Cubic = Inl IndexError \<and>
   (\<exists>c. Curve_init no_fit [0] [1, 2, 3] (0, 1) Cubic = Inr c \<and> inputs c = [0] \<and> outputs c = [1, 2, 3])"
  using Curve_init_failure [of "[0, 1]" no_fit Cubic "[0, 1]" "(0, 1)"]
    Curve_init_failure [of "[]" no_fit Cubic "[]" "(0, 1)"]
    Curve_init_failure [of "[0]" no_fit Cubic "[1, 2, 3]" "(0, 1)"]
  by (simp add: no_fit_def)

text \<open>
  Claim C8 as stated fails: one input point with two output values constructs a curve.
\<close>

theorem Curve_init_mismatch_counterexample:
  "length [0::real] \<noteq> length [1 / 10, 2 / 10 :: real] \<and>
   \<not> isl (Curve_init no_fit [0] [1 / 10, 2 / 10] (0, 1) Linear)"
  by (simp add: Curve_init_cases)

section \<open>Volume.bin: results\<close>
















section \<open>Segment and plane: results\<close>













section \<open>closest_triangle_to_point: results\<close>

subsection \<open>The masked array code, row by row\<close>

lemma zip_map_same: "zip (map g xs) (map h xs) = map (\<lambda>x. (g x, h x)) xs"
  by (induction xs) simp_all

lemma select_map: "select m (map g xs) = map g (select m xs)"
proof (induction xs arbitrary: m)
  case Nil
  then show ?case by (simp add: select_def)
next
  case (Cons x xs)
  then show ?case by (cases m) (auto simp: select_def)
qed

lemma select_Cons:
  "select (b # m) (x # xs) = (if b then x # select m xs else select m xs)"
  by (simp add: select_def)

lemma select_Nil: "select m [] = []" "select [] xs = []"
  by (simp_all add: select_def)

lemma scatter_select:
  "length d = length m \<Longrightarrow> length m = length xs \<Longrightarrow>
   scatter d m (map g (select m xs))
     = map (\<lambda>(dv, b, x). if b then g x else dv) (zip d (zip m xs))"
proof (induction d m xs rule: list_induct3)
  case Nil
  then show ?case by (simp add: select_Nil)
next
  case (Cons dv d b m x xs)
  then show ?case by (cases b) (simp_all add: select_Cons)
qed

lemma scatter_both:
  assumes "length d = length xs"
  shows "scatter (scatter d (map (\<lambda>x. \<not> mk x) xs)
                    (map h (select (map (\<lambda>x. \<not> mk x) xs) xs)))
           (map mk xs) (map g (select (map mk xs) xs))
         = map (\<lambda>x. if mk x then g x else h x) xs"
proof -
  have 1: "scatter d (map (\<lambda>x. \<not> mk x) xs) (map h (select (map (\<lambda>x. \<not> mk x) xs) xs))
             = map (\<lambda>(dv, x). if mk x then dv else h x) (zip d xs)"
    using assms
    by (subst scatter_select) (auto simp: zip_map_same zip_map2 intro!: nth_equalityI)
  have 2: "length (map (\<lambda>(dv, x). if mk x then dv else h x) (zip d xs)) = length xs"
    using assms by simp
  show ?thesis
    unfolding 1 using assms
    by (subst scatter_select) (auto intro!: nth_equalityI)
qed

lemma point_dist_rows:
  "point_dist ops (tri_setup ops faces) pt = map (spec_triangle_dist ops pt) faces"
proof -
  have len: "length (replicate (length faces) (Finite 0)) = length faces" by simp
  show ?thesis
    unfolding point_dist_def tri_setup_def Let_def
    apply (simp add: zip_map_same select_map edge_temp_def comp_def case_prod_beta
        del: replicate.simps)
    apply (subst scatter_both [where xs = faces, OF len])
    apply (simp add: spec_triangle_dist_def spec_edge_dist_def edge_elem_def case_prod_beta Let_def)
    done
qed

subsection \<open>argmin\<close>

lemma f_less_irrefl: "\<not> f_less x x"
  by (cases x) simp_all

lemma f_less_le_trans: "f_less x y \<Longrightarrow> f_le y z \<Longrightarrow> f_less x z"
  by (cases x; cases y; cases z) (simp_all add: f_le_def)

lemma f_le_refl: "x \<noteq> NaN \<Longrightarrow> f_le x x"
  by (simp add: f_le_def f_less_irrefl)

lemma f_less_imp_le: "f_less x y \<Longrightarrow> f_le x y"
  by (cases x; cases y) (simp_all add: f_le_def)

lemma not_f_ge: "x \<noteq> NaN \<Longrightarrow> mp \<noteq> NaN \<Longrightarrow> \<not> f_ge x mp \<Longrightarrow> f_less x mp"
  by (simp add: f_ge_def f_le_def)

lemma f_ge_not_NaN: "f_ge x mp \<Longrightarrow> x \<noteq> NaN"
  by (auto simp: f_ge_def f_le_def)

lemma argmin_scan_first_least:
  assumes "mi < length pre"
    and "pre ! mi = mp"
    and "NaN \<notin> set pre"
    and "\<forall>j < length pre. f_le mp (pre ! j)"
    and "\<forall>j < mi. f_less mp (pre ! j)"
  shows "first_least (pre @ rs) (argmin_scan rs (length pre) mp mi)"
  using assms
proof (induction rs arbitrary: pre mp mi)
  case Nil
  then show ?case by (simp add: first_least_def)
next
  case (Cons x rs)
  have mp: "mp \<noteq> NaN"
    using Cons.prems(1,2,3) by (metis nth_mem)
  show ?case
  proof (cases "f_ge x mp")
    case True
    have x: "x \<noteq> NaN" using True by (rule f_ge_not_NaN)
    have 1: "mi < length (pre @ [x])" using Cons.prems(1) by simp
    have 2: "(pre @ [x]) ! mi = mp" using Cons.prems(1,2) by (simp add: nth_append)
    have 3: "NaN \<notin> set (pre @ [x])" using Cons.prems(3) x by simp
    have 4: "\<forall>j < length (pre @ [x]). f_le mp ((pre @ [x]) ! j)"
      using Cons.prems(4) True by (auto simp: nth_append less_Suc_eq f_ge_def)
    have 5: "\<forall>j < mi. f_less mp ((pre @ [x]) ! j)"
      using Cons.prems(1,5) by (auto simp: nth_append)
    have s: "argmin_scan (x # rs) (length pre) mp mi
               = argmin_scan rs (length (pre @ [x])) mp mi"
      using True by simp
    show ?thesis
      unfolding s using Cons.IH [OF 1 2 3 4 5] by simp
  next
    case False
    show ?thesis
    proof (cases "x = NaN")
      case True
      have s: "argmin_scan (x # rs) (length pre) mp mi = length pre"
        using False True by simp
      have "\<forall>j < length pre. (pre @ x # rs) ! j \<noteq> NaN"
        using Cons.prems(3) by (auto simp: nth_append) (metis nth_mem)
      then show ?thesis
        unfolding s using True by (simp add: first_least_def)
    next
      case x: False
      have lt: "f_less x mp" using x mp False by (rule not_f_ge)
      have 1: "length pre < length (pre @ [x])" by simp
      have 2: "(pre @ [x]) ! length pre = x" by simp
      have 3: "NaN \<notin> set (pre @ [x])" using Cons.prems(3) x by simp
      have b: "f_less x (pre ! j)" if "j < length pre" for j
        using lt Cons.prems(4) that by (blast intro: f_less_le_trans)
      have 4: "\<forall>j < length (pre @ [x]). f_le x ((pre @ [x]) ! j)"
        using b x by (auto simp: nth_append less_Suc_eq f_le_refl f_less_imp_le)
      have 5: "\<forall>j < length pre. f_less x ((pre @ [x]) ! j)"
        using b by (auto simp: nth_append)
      have s: "argmin_scan (x # rs) (length pre) mp mi
                 = argmin_scan rs (length (pre @ [x])) x (length pre)"
        using False x by simp
      show ?thesis
        unfolding s using Cons.IH [OF 1 2 3 4 5] by simp
    qed
  qed
qed

lemma argmin_first_least:
  assumes "xs \<noteq> []"
  shows "\<exists>k. argmin xs = Inr k \<and> first_least xs k"
proof -
  obtain x rest where xs: "xs = x # rest" using assms by (cases xs) auto
  show ?thesis
  proof (cases "x = NaN")
    case True
    then show ?thesis by (simp add: argmin_def xs first_least_def)
  next
    case False
    have "first_least ([x] @ rest) (argmin_scan rest (length [x]) x 0)"
      using False by (intro argmin_scan_first_least) (auto simp: f_le_refl)
    then show ?thesis using False by (simp add: argmin_def xs)
  qed
qed

lemma collect_map_Inr: "collect (map (\<lambda>x. Inr (h x)) xs) = Inr (map h xs)"
  by (induction xs) simp_all

lemma closest_unfold:
  assumes "faces \<noteq> []"
  shows "closest_triangle_to_point ops faces points
           = Inr (map (\<lambda>pt. faces ! projr (argmin (map (spec_triangle_dist ops pt) faces))) points)"
proof -
  have "(case argmin (map (spec_triangle_dist ops pt) faces) of
           Inl e \<Rightarrow> Inl e
         | Inr i \<Rightarrow> Inr (faces ! i))
          = Inr (faces ! projr (argmin (map (spec_triangle_dist ops pt) faces)))" for pt
  proof -
    have "map (spec_triangle_dist ops pt) faces \<noteq> []" using assms by simp
    then obtain k where "argmin (map (spec_triangle_dist ops pt) faces) = Inr k"
      using argmin_first_least by blast
    then show ?thesis by simp
  qed
  then show ?thesis
    by (simp add: closest_triangle_to_point_def Let_def point_dist_rows collect_map_Inr)
qed

subsection \<open>The claims\<close>



text \<open>
  Claim C10. For a \<^verbatim>\<open>faces\<close> array with at least one triangle, in whatever double
  arithmetic, \<open>closest_triangle_to_point\<close> returns one row per query point, in the
  order of the query points, and the row returned for a point is the row of \<^verbatim>\<open>faces\<close>
  at the index \<^verbatim>\<open>argmin\<close> gives for that point's distance array: a row of the input,
  unchanged.
\<close>

theorem closest_rows:
  assumes "faces \<noteq> []"
  shows "\<exists>rs. closest_triangle_to_point ops faces points = Inr rs \<and>
              length rs = length points \<and>
              (\<forall>k < length points.
                 rs ! k \<in> set faces \<and>
                 (\<exists>i < length faces.
                    argmin (point_dist ops (tri_setup ops faces) (points ! k)) = Inr i \<and>
                    rs ! k = faces ! i))"
proof -
  have "faces ! projr (argmin (map (spec_triangle_dist ops pt) faces)) \<in> set faces \<and>
        (\<exists>i < length faces. argmin (map (spec_triangle_dist ops pt) faces) = Inr i \<and>
          faces ! projr (argmin (map (spec_triangle_dist ops pt) faces)) = faces ! i)" for pt
  proof -
    have "map (spec_triangle_dist ops pt) faces \<noteq> []" using assms by simp
    then obtain k where "argmin (map (spec_triangle_dist ops pt) faces) = Inr k"
      and "first_least (map (spec_triangle_dist ops pt) faces) k"
      using argmin_first_least by blast
    then show ?thesis by (auto simp: first_least_def)
  qed
  then show ?thesis
    unfolding closest_unfold [OF assms] point_dist_rows by simp
qed

theorem closest_rows_witness:
  "\<exists>rs. closest_triangle_to_point exact_ops
          [(fin3 (0, 0, 0), fin3 (1, 0, 0), fin3 (0, 1, 0)),
           (fin3 (2, 0, 0), fin3 (2, 0, 0), fin3 (3, 0, 0))]
          [fin3 (1 / 4, 1 / 4, 0), fin3 (0, 5, 0)] = Inr rs \<and>
        length rs = 2 \<and>
        rs ! 0 \<in> {(fin3 (0, 0, 0), fin3 (1, 0, 0), fin3 (0, 1, 0)),
                   (fin3 (2, 0, 0), fin3 (2, 0, 0), fin3 (3, 0, 0))} \<and>
        rs ! 1 \<in> {(fin3 (0, 0, 0), fin3 (1, 0, 0), fin3 (0, 1, 0)),
                   (fin3 (2, 0, 0), fin3 (2, 0, 0), fin3 (3, 0, 0))}"
proof -
  have ne: "([(fin3 (0, 0, 0), fin3 (1, 0, 0), fin3 (0, 1, 0)),
              (fin3 (2, 0, 0), fin3 (2, 0, 0), fin3 (3, 0, 0))] :: face list) \<noteq> []"
    by simp
  show ?thesis
    using closest_rows [OF ne, of exact_ops "[fin3 (1 / 4, 1 / 4, 0), fin3 (0, 5, 0)]"]
    by (auto simp: numeral_2_eq_2 All_less_Suc)
qed






section \<open>mesh_plane_intersection: results\<close>

subsection \<open>Slices, offsets and the loop over the faces\<close>

lemma take3_drop:
  assumes "3 * k + 3 \<le> length xs"
  shows "take 3 (drop (3 * k) xs) = [xs ! (3 * k), xs ! (3 * k + 1), xs ! (3 * k + 2)]"
proof -
  have l: "length (take 3 (drop (3 * k) xs)) = 3"
    using assms by simp
  show ?thesis
  proof (rule nth_equalityI)
    show "length (take 3 (drop (3 * k) xs))
            = length [xs ! (3 * k), xs ! (3 * k + 1), xs ! (3 * k + 2)]"
      using l by simp
  next
    fix i
    assume "i < length (take 3 (drop (3 * k) xs))"
    then have "i < 3" using l by simp
    then consider "i = 0" | "i = 1" | "i = 2" by linarith
    then show "take 3 (drop (3 * k) xs) ! i
                 = [xs ! (3 * k), xs ! (3 * k + 1), xs ! (3 * k + 2)] ! i"
      using assms by cases simp_all
  qed
qed

lemma triples_nth:
  "length xs = 3 * n \<Longrightarrow>
   triples xs = map (\<lambda>k. (xs ! (3 * k), xs ! (3 * k + 1), xs ! (3 * k + 2))) [0..<n]"
proof (induction n arbitrary: xs)
  case 0
  then show ?case by simp
next
  case (Suc n)
  then obtain a b c rest where xs: "xs = a # b # c # rest"
    by (cases xs; cases "tl xs"; cases "tl (tl xs)") auto
  then have "length rest = 3 * n" using Suc.prems by simp
  then have "triples rest
               = map (\<lambda>k. (rest ! (3 * k), rest ! (3 * k + 1), rest ! (3 * k + 2))) [0..<n]"
    by (rule Suc.IH)
  then show ?case
    unfolding xs by (simp add: map_upt_Suc del: upt_Suc)
qed

lemma range3_triple: "range3 (3 * n) = map (\<lambda>k. 3 * k) [0..<n]"
proof -
  have "(3 * n + 2) div 3 = n" by simp
  then show ?thesis by (simp add: range3_def)
qed

lemma reduceat_and_from:
  assumes "length bs = 3 * n"
  shows "k0 \<le> n \<Longrightarrow>
         reduceat_and bs (map (\<lambda>k. 3 * k) [k0..<n])
           = map (\<lambda>k. bs ! (3 * k) \<and> bs ! (3 * k + 1) \<and> bs ! (3 * k + 2)) [k0..<n]"
proof (induction "n - k0" arbitrary: k0)
  case 0
  then show ?case by simp
next
  case (Suc d)
  then have k0: "k0 < n" by simp
  then have sl: "3 * k0 + 3 \<le> length bs" using assms by simp
  have up: "[k0..<n] = k0 # [Suc k0..<n]"
    using k0 by (simp add: upt_conv_Cons)
  show ?case
  proof (cases "Suc k0 = n")
    case True
    then have e: "[Suc k0..<n] = []" by simp
    have "drop (3 * k0) bs = take 3 (drop (3 * k0) bs)"
      using assms True by simp
    then have d: "drop (3 * k0) bs = [bs ! (3 * k0), bs ! (3 * k0 + 1), bs ! (3 * k0 + 2)]"
      using take3_drop [OF sl] by simp
    have "reduceat_and bs (map (\<lambda>k. 3 * k) [k0..<n]) = [list_all id (drop (3 * k0) bs)]"
      unfolding up e by simp
    then show ?thesis
      unfolding up e d by simp
  next
    case False
    then have k1: "Suc k0 < n" using k0 by simp
    have up1: "[Suc k0..<n] = Suc k0 # [Suc (Suc k0)..<n]"
      using k1 by (simp add: upt_conv_Cons)
    have ih: "reduceat_and bs (map (\<lambda>k. 3 * k) [Suc k0..<n])
                = map (\<lambda>k. bs ! (3 * k) \<and> bs ! (3 * k + 1) \<and> bs ! (3 * k + 2)) [Suc k0..<n]"
      using Suc.hyps(2) k0 by (intro Suc.hyps(1)) simp_all
    have "reduceat_and bs (map (\<lambda>k. 3 * k) [k0..<n])
            = list_all id (take 3 (drop (3 * k0) bs))
                # reduceat_and bs (map (\<lambda>k. 3 * k) [Suc k0..<n])"
      unfolding up up1 by simp
    then show ?thesis
      unfolding ih up using take3_drop [OF sl] by simp
  qed
qed

lemma reduceat_and_range3:
  assumes "length bs = 3 * n"
  shows "reduceat_and bs (range3 (length bs))
           = map (\<lambda>k. bs ! (3 * k) \<and> bs ! (3 * k + 1) \<and> bs ! (3 * k + 2)) [0..<n]"
  unfolding assms range3_triple by (rule reduceat_and_from [OF assms]) simp

lemma face_loop_collect:
  assumes "\<forall>index \<in> set idx.
             face_body ops pl (take 3 (drop index all_dist)) (take 3 (drop index all_vertices))
               = Inr (g index)"
  shows "face_loop ops pl all_dist all_vertices idx segments
           = Inr (segments @ concat (map g idx))"
  using assms by (induction idx arbitrary: segments) simp_all

lemma concat_map_filter_empty:
  assumes "\<forall>x \<in> set xs. \<not> P x \<longrightarrow> f x = []"
  shows "concat (map f (filter P xs)) = concat (map f xs)"
  using assms by (induction xs) simp_all

subsection \<open>The loop body on one face\<close>

lemma upt3: "[0..<3] = [0, 1, 2]"
  by (simp add: numeral_3_eq_3)

lemma edge_loop_three:
  "edge_loop ops pl [a, b, c] [(0, 1), (1, 2), (0, 2)] []
     = Inr (first_two
              (List.map_filter (\<lambda>(x, y). segment_plane_intersection ops x y pl)
                 [(a, b), (b, c), (a, c)]))"
  by (cases "segment_plane_intersection ops a b pl"; cases "segment_plane_intersection ops b c pl";
      cases "segment_plane_intersection ops a c pl")
    (simp_all add: row_def first_two_def map_filter_simps)

lemma face_body_three:
  assumes "\<not> ((f_less (Finite 0) (signed_dist ops pl a) \<and> f_less (Finite 0) (signed_dist ops pl b) \<and> f_less (Finite 0) (signed_dist ops pl c)) \<or>
              (f_less (signed_dist ops pl a) (Finite 0) \<and> f_less (signed_dist ops pl b) (Finite 0) \<and> f_less (signed_dist ops pl c) (Finite 0)))"
  shows "face_body ops pl [signed_dist ops pl a, signed_dist ops pl b, signed_dist ops pl c] [a, b, c]
           = Inr (spec_face_segments ops pl (a, b, c))"
proof -
  have s: "spec_face_segments ops pl (a, b, c) =
     (if signed_dist ops pl a = Finite 0 \<and> signed_dist ops pl b = Finite 0 \<and> signed_dist ops pl c = Finite 0 then []
      else if signed_dist ops pl b = Finite 0 \<and> signed_dist ops pl c = Finite 0 then [b, c]
      else if signed_dist ops pl a = Finite 0 \<and> signed_dist ops pl c = Finite 0 then [a, c]
      else if signed_dist ops pl a = Finite 0 \<and> signed_dist ops pl b = Finite 0 then [a, b]
      else if signed_dist ops pl a = Finite 0 then
        (case segment_plane_intersection ops b c pl of None \<Rightarrow> [] | Some q \<Rightarrow> [a, q])
      else if signed_dist ops pl b = Finite 0 then
        (case segment_plane_intersection ops a c pl of None \<Rightarrow> [] | Some q \<Rightarrow> [b, q])
      else if signed_dist ops pl c = Finite 0 then
        (case segment_plane_intersection ops a b pl of None \<Rightarrow> [] | Some q \<Rightarrow> [c, q])
      else first_two
             (List.map_filter (\<lambda>(x, y). segment_plane_intersection ops x y pl)
                [(a, b), (b, c), (a, c)]))"
    unfolding spec_face_segments_def Let_def prod.case
    by (simp only: assms if_False)
  consider "signed_dist ops pl a = Finite 0" "signed_dist ops pl b = Finite 0" "signed_dist ops pl c = Finite 0" | "signed_dist ops pl a \<noteq> Finite 0" "signed_dist ops pl b = Finite 0" "signed_dist ops pl c = Finite 0"
    | "signed_dist ops pl a = Finite 0" "signed_dist ops pl b \<noteq> Finite 0" "signed_dist ops pl c = Finite 0" | "signed_dist ops pl a = Finite 0" "signed_dist ops pl b = Finite 0" "signed_dist ops pl c \<noteq> Finite 0"
    | "signed_dist ops pl a = Finite 0" "signed_dist ops pl b \<noteq> Finite 0" "signed_dist ops pl c \<noteq> Finite 0" | "signed_dist ops pl a \<noteq> Finite 0" "signed_dist ops pl b = Finite 0" "signed_dist ops pl c \<noteq> Finite 0"
    | "signed_dist ops pl a \<noteq> Finite 0" "signed_dist ops pl b \<noteq> Finite 0" "signed_dist ops pl c = Finite 0" | "signed_dist ops pl a \<noteq> Finite 0" "signed_dist ops pl b \<noteq> Finite 0" "signed_dist ops pl c \<noteq> Finite 0"
    by blast
  then show ?thesis
  proof cases
    case 1
    then show ?thesis unfolding s by (simp add: face_body_def upt3)
  next
    case 2
    then show ?thesis unfolding s by (simp add: face_body_def upt3 np_delete_def row_def)
  next
    case 3
    then show ?thesis unfolding s by (simp add: face_body_def upt3 np_delete_def row_def)
  next
    case 4
    then show ?thesis unfolding s by (simp add: face_body_def upt3 np_delete_def row_def)
  next
    case 5
    then show ?thesis unfolding s
      by (simp add: face_body_def upt3 np_delete_def row_def split: option.splits)
  next
    case 6
    then show ?thesis unfolding s
      by (simp add: face_body_def upt3 np_delete_def row_def split: option.splits)
  next
    case 7
    then show ?thesis unfolding s
      by (simp add: face_body_def upt3 np_delete_def row_def split: option.splits)
  next
    case 8
    have l: "face_body ops pl [signed_dist ops pl a, signed_dist ops pl b, signed_dist ops pl c] [a, b, c]
               = edge_loop ops pl [a, b, c] [(0, 1), (1, 2), (0, 2)] []"
      using 8 by (simp add: face_body_def upt3 del: edge_loop.simps)
    have r: "spec_face_segments ops pl (a, b, c)
               = first_two
                   (List.map_filter (\<lambda>(x, y). segment_plane_intersection ops x y pl)
                      [(a, b), (b, c), (a, c)])"
      unfolding s using 8 by (simp only: simp_thms if_False)
    show ?thesis
      unfolding l r by (rule edge_loop_three)
  qed
qed

lemma spec_face_segments_one_side:
  assumes "(f_less (Finite 0) (signed_dist ops pl a) \<and> f_less (Finite 0) (signed_dist ops pl b) \<and> f_less (Finite 0) (signed_dist ops pl c)) \<or>
           (f_less (signed_dist ops pl a) (Finite 0) \<and> f_less (signed_dist ops pl b) (Finite 0) \<and> f_less (signed_dist ops pl c) (Finite 0))"
  shows "spec_face_segments ops pl (a, b, c) = []"
  using assms by (simp add: spec_face_segments_def Let_def)

text \<open>
  Claim C2. For a triangular mesh and a plane, in whatever double arithmetic,
  \<open>mesh_plane_intersection\<close> returns the segments of the faces, face after face, where
  a face contributes what \<open>spec_face_segments\<close> says of its three computed signed
  distances: nothing when they are all strictly positive or all strictly negative,
  nothing when all three are zero, the edge opposite the vertex when exactly one distance
  is nonzero, the zero vertex and the crossing of the other edge (when
  \<open>segment_plane_intersection\<close> finds one) when exactly two are nonzero, and otherwise
  the first two crossings found on the edges (0,1), (1,2), (0,2) in this order (nothing
  when fewer than two are found).
\<close>

theorem mesh_plane_intersection_faces:
  assumes "triangular m"
  shows "mesh_plane_intersection ops m pl
           = Inr (concat (map (spec_face_segments ops pl) (mesh_faces m)))"
proof -
  define V where "V = map (\<lambda>i. vertices m ! i) (indices m)"
  define n where "n = length (indices m) div 3"
  define D where "D = map (signed_dist ops pl) V"
  define F where "F = (\<lambda>k. (V ! (3 * k), V ! (3 * k + 1), V ! (3 * k + 2)))"
  define pos where "pos = (\<lambda>k. f_less (Finite 0) (signed_dist ops pl (V ! (3 * k))) \<and>
                               f_less (Finite 0) (signed_dist ops pl (V ! (3 * k + 1))) \<and>
                               f_less (Finite 0) (signed_dist ops pl (V ! (3 * k + 2))))"
  define neg where "neg = (\<lambda>k. f_less (signed_dist ops pl (V ! (3 * k))) (Finite 0) \<and>
                               f_less (signed_dist ops pl (V ! (3 * k + 1))) (Finite 0) \<and>
                               f_less (signed_dist ops pl (V ! (3 * k + 2))) (Finite 0))"
  define keep where "keep = (\<lambda>k. \<not> neg k \<and> \<not> pos k)"
  have lenV: "length V = 3 * n"
    using assms by (auto simp: triangular_def V_def n_def)
  have lenD: "length D = 3 * n"
    using lenV by (simp add: D_def)
  have g: "gather (vertices m) (indices m) = Inr V"
    using assms by (simp add: gather_def triangular_def V_def)
  have faces: "mesh_faces m = map F [0..<n]"
    unfolding mesh_faces_def V_def [symmetric] F_def by (rule triples_nth [OF lenV])
  have gg: "reduceat_and (map (\<lambda>d. f_less (Finite 0) d) D) (range3 (length V)) = map pos [0..<n]"
  proof -
    have l: "length (map (\<lambda>d. f_less (Finite 0) d) D) = 3 * n" using lenD by simp
    have "reduceat_and (map (\<lambda>d. f_less (Finite 0) d) D) (range3 (length (map (\<lambda>d. f_less (Finite 0) d) D)))
            = map (\<lambda>k. map (\<lambda>d. f_less (Finite 0) d) D ! (3 * k) \<and> map (\<lambda>d. f_less (Finite 0) d) D ! (3 * k + 1) \<and>
                        map (\<lambda>d. f_less (Finite 0) d) D ! (3 * k + 2)) [0..<n]"
      by (rule reduceat_and_range3 [OF l])
    also have "\<dots> = map pos [0..<n]"
      using lenV by (intro map_cong refl) (simp add: pos_def D_def)
    finally show ?thesis using lenV lenD by simp
  qed
  have ll: "reduceat_and (map (\<lambda>d. f_less d (Finite 0)) D) (range3 (length V)) = map neg [0..<n]"
  proof -
    have l: "length (map (\<lambda>d. f_less d (Finite 0)) D) = 3 * n" using lenD by simp
    have "reduceat_and (map (\<lambda>d. f_less d (Finite 0)) D) (range3 (length (map (\<lambda>d. f_less d (Finite 0)) D)))
            = map (\<lambda>k. map (\<lambda>d. f_less d (Finite 0)) D ! (3 * k) \<and> map (\<lambda>d. f_less d (Finite 0)) D ! (3 * k + 1) \<and>
                        map (\<lambda>d. f_less d (Finite 0)) D ! (3 * k + 2)) [0..<n]"
      by (rule reduceat_and_range3 [OF l])
    also have "\<dots> = map neg [0..<n]"
      using lenV by (intro map_cong refl) (simp add: neg_def D_def)
    finally show ?thesis using lenV lenD by simp
  qed
  have idx: "map (\<lambda>k. k * 3)
               (filter (\<lambda>k. \<not> map neg [0..<n] ! k \<and> \<not> map pos [0..<n] ! k)
                  [0..<length (map pos [0..<n])])
             = map (\<lambda>k. k * 3) (filter keep [0..<n])"
  proof -
    have "filter (\<lambda>k. \<not> map neg [0..<n] ! k \<and> \<not> map pos [0..<n] ! k) [0..<n]
            = filter keep [0..<n]"
      by (rule filter_cong) (simp_all add: keep_def)
    then show ?thesis by simp
  qed
  have body: "face_body ops pl (take 3 (drop (k * 3) D)) (take 3 (drop (k * 3) V))
                = Inr (spec_face_segments ops pl (F k))"
    if "k < n" and "keep k" for k
  proof -
    have s: "3 * k + 3 \<le> length V" "3 * k + 3 \<le> length D"
      using that(1) lenV lenD by simp_all
    have tv: "take 3 (drop (k * 3) V) = [V ! (3 * k), V ! (3 * k + 1), V ! (3 * k + 2)]"
      using take3_drop [OF s(1)] by (simp add: mult.commute)
    have td: "take 3 (drop (k * 3) D)
                = [signed_dist ops pl (V ! (3 * k)), signed_dist ops pl (V ! (3 * k + 1)),
                   signed_dist ops pl (V ! (3 * k + 2))]"
      using take3_drop [OF s(2)] s(1) by (simp add: mult.commute D_def)
    have "\<not> ((f_less (Finite 0) (signed_dist ops pl (V ! (3 * k))) \<and> f_less (Finite 0) (signed_dist ops pl (V ! (3 * k + 1))) \<and>
                f_less (Finite 0) (signed_dist ops pl (V ! (3 * k + 2)))) \<or>
              (f_less (signed_dist ops pl (V ! (3 * k))) (Finite 0) \<and> f_less (signed_dist ops pl (V ! (3 * k + 1))) (Finite 0) \<and>
                f_less (signed_dist ops pl (V ! (3 * k + 2))) (Finite 0)))"
      using that(2) by (simp add: keep_def pos_def neg_def)
    then show ?thesis
      unfolding tv td F_def by (rule face_body_three)
  qed
  have drop: "spec_face_segments ops pl (F k) = []" if "\<not> keep k" for k
    using that unfolding F_def keep_def pos_def neg_def
    by (intro spec_face_segments_one_side) blast
  have loop: "face_loop ops pl D V (map (\<lambda>k. k * 3) (filter keep [0..<n])) []
                = Inr ([] @ concat (map (\<lambda>index. spec_face_segments ops pl (F (index div 3)))
                                      (map (\<lambda>k. k * 3) (filter keep [0..<n]))))"
    by (rule face_loop_collect) (auto simp: body)
  have c1: "concat (map (\<lambda>index. spec_face_segments ops pl (F (index div 3)))
                      (map (\<lambda>k. k * 3) (filter keep [0..<n])))
              = concat (map (\<lambda>k. spec_face_segments ops pl (F k)) (filter keep [0..<n]))"
    by (simp add: comp_def)
  have c2: "concat (map (\<lambda>k. spec_face_segments ops pl (F k)) (filter keep [0..<n]))
              = concat (map (\<lambda>k. spec_face_segments ops pl (F k)) [0..<n])"
    by (rule concat_map_filter_empty) (simp add: drop)
  have res: "concat (map (spec_face_segments ops pl) (mesh_faces m))
               = concat (map (\<lambda>k. spec_face_segments ops pl (F k)) (filter keep [0..<n]))"
    unfolding faces c2 by (simp add: comp_def)
  have "mesh_plane_intersection ops m pl =
          (if map (\<lambda>k. k * 3) (filter keep [0..<n]) = [] then Inr []
           else face_loop ops pl D V (map (\<lambda>k. k * 3) (filter keep [0..<n])) [])"
    unfolding mesh_plane_intersection_def g sum.case Let_def D_def [symmetric]
      gg ll idx ..
  also have "\<dots> = Inr (concat (map (\<lambda>k. spec_face_segments ops pl (F k)) (filter keep [0..<n])))"
  proof (cases "filter keep [0..<n] = []")
    case True
    then show ?thesis by simp
  next
    case False
    then show ?thesis unfolding loop c1 by simp
  qed
  finally show ?thesis unfolding res .
qed

text \<open>
  The theorem on a mesh of five faces across the plane \<open>z = 0\<close>: one crossed in two
  edges, one above the plane, one with an edge on it, one with a vertex on it, and one
  lying on it.
\<close>

theorem mesh_plane_intersection_faces_witness:
  "mesh_plane_intersection exact_ops
     \<lparr>vertices = map fin3 [(0, 0, - 1), (1, 0, 1), (0, 1, 1), (0, 0, 0), (1, 0, 0), (0, 0, 2)],
      indices = [0, 1, 2, 1, 2, 5, 3, 4, 1, 0, 3, 1, 3, 4, 3]\<rparr>
     \<lparr>point = fin3 (0, 0, 0), normal = fin3 (0, 0, 1)\<rparr>
     = Inr (map fin3
              [(1 / 2, 0, 0), (0, 1 / 2, 0), (0, 0, 0), (1, 0, 0), (0, 0, 0), (1 / 2, 0, 0)])"
proof -
  have t: "triangular
             \<lparr>vertices = map fin3 [(0, 0, - 1), (1, 0, 1), (0, 1, 1), (0, 0, 0), (1, 0, 0), (0, 0, 2)],
              indices = [0, 1, 2, 1, 2, 5, 3, 4, 1, 0, 3, 1, 3, 4, 3]\<rparr>"
    by code_simp
  have e: "concat (map (spec_face_segments exact_ops \<lparr>point = fin3 (0, 0, 0), normal = fin3 (0, 0, 1)\<rparr>)
             (mesh_faces
                \<lparr>vertices = map fin3 [(0, 0, - 1), (1, 0, 1), (0, 1, 1), (0, 0, 0), (1, 0, 0), (0, 0, 2)],
                 indices = [0, 1, 2, 1, 2, 5, 3, 4, 1, 0, 3, 1, 3, 4, 3]\<rparr>))
           = map fin3 [(1 / 2, 0, 0), (0, 1 / 2, 0), (0, 0, 0), (1, 0, 0), (0, 0, 0), (1 / 2, 0, 0)]"
    by code_simp
  show ?thesis
    using mesh_plane_intersection_faces [OF t, of exact_ops "\<lparr>point = fin3 (0, 0, 0), normal = fin3 (0, 0, 1)\<rparr>"]
    unfolding e .
qed

section \<open>Volume placement: results\<close>

text \<open>
  Each mutator multiplies its matrix on the left of the current transform matrix and
  passes the current bounding box through that one matrix; the grid is left alone.
\<close>

lemma apply_call_fields:
  "transform_matrix (apply_call bt self c) = mat_mul (call_matrix c) (transform_matrix self)"
  "bounding_box (apply_call bt self c) = bt (bounding_box self) (call_matrix c)"
  "vol_data (apply_call bt self c) = vol_data self"
  "voxel_size (apply_call bt self c) = voxel_size self"
  by (cases c; simp add: rotate_def translate_def transform_def)+

lemma apply_calls_snoc:
  "apply_calls bt self (calls @ [c]) = apply_call bt (apply_calls bt self calls) c"
  by (simp add: apply_calls_def)

lemma apply_calls_transform_matrix:
  "transform_matrix (apply_calls bt self calls)
     = foldl (\<lambda>M c. mat_mul (call_matrix c) M) (transform_matrix self) calls"
  by (induction calls rule: rev_induct) (simp_all add: apply_calls_def apply_call_fields)

text \<open>
  Whether the bounding box is the local box passed through the composed transform
  depends on \<^verbatim>\<open>BoundingBox.transform\<close>: it is, after every sequence of calls, when passing
  a box through one matrix and then another is the same as passing it through their
  product.
\<close>

lemma apply_calls_bounding_box:
  assumes "\<And>b A B. bt (bt b A) B = bt b (mat_mul B A)"
  shows "bounding_box (apply_calls bt (Volume_init box bt d vs centre) calls)
           = bt (local_box box d vs)
               (transform_matrix (apply_calls bt (Volume_init box bt d vs centre) calls))"
proof (induction calls rule: rev_induct)
  case Nil
  then show ?case by (simp add: apply_calls_def Volume_init_def)
next
  case (snoc c calls)
  then show ?case by (simp add: apply_calls_snoc apply_call_fields assms)
qed

end
